theory Spec2Isabelle
  imports Main "HOL-Library.AList"
begin

section \<open>The token manager of src/auth/tokenManager.ts\<close>

text \<open>
  The theory embeds the class \<^verbatim>\<open>TokenManager\<close> and its helpers
  (\<^verbatim>\<open>TempFileManager\<close>, \<^verbatim>\<open>FileLock\<close>, \<^verbatim>\<open>withRetry\<close>) as functions on one
  explicit state: the fields of the manager, the credentials held by the OAuth client,
  and the part of the environment the manager talks to (the files, the clock, the
  random source). Every asynchronous method is run from its call to its settlement
  without another operation in between; the registry, whose entries exist only while
  an operation is in flight, is given as its two halves (registration and settlement)
  so that overlapping invocations can be written down as well. What the methods write
  to the console is left out.
\<close>

subsection \<open>JSON values and the text of a file\<close>

text \<open>
  A value as \<^verbatim>\<open>JSON.parse\<close> returns it. Numbers are integers (the only numbers the
  manager computes with are millisecond timestamps). An object is the list of its
  properties, read with \<^const>\<open>map_of\<close>; a property that is absent is the
  \<^verbatim>\<open>undefined\<close> of the language, so an in-memory object is given by the properties
  that are defined.
\<close>

datatype json =
    JNull
  | JBool bool
  | JNum int
  | JStr string
  | JArr "json list"
  | JObj "(string \<times> json) list"

type_synonym props = "(string \<times> json) list"

text \<open>
  The text of a file is known by what \<^verbatim>\<open>JSON.parse\<close> makes of it: \<open>Json v\<close> is a text
  that parses to \<open>v\<close> (the manager only ever parses a text or copies it), \<open>NotJson t\<close>
  is a text \<open>t\<close> that does not parse.
\<close>

datatype contents = NotJson string | Json json

datatype errno = ENOENT | EEXIST | EACCES | EBUSY | EIO

text \<open>
  What a \<^verbatim>\<open>throw\<close> or a rejected promise carries: a failed file-system call with its
  \<^verbatim>\<open>code\<close>, the SyntaxError of \<^verbatim>\<open>JSON.parse\<close>, the TypeError of a property read on
  \<^verbatim>\<open>null\<close>, \<^verbatim>\<open>new Error(message)\<close>, a GaxiosError with its
  \<^verbatim>\<open>response?.data?.error\<close>, and the \<^verbatim>\<open>undefined\<close> that \<^verbatim>\<open>withRetry\<close> throws when it
  was asked for no attempt.
\<close>

datatype error =
    FsError errno
  | SyntaxError
  | TypeError
  | Error string
  | GaxiosError "string option"
  | Undefined

definition JSON_parse :: "contents \<Rightarrow> error + json" where
  "JSON_parse t = (case t of NotJson _ \<Rightarrow> Inl SyntaxError | Json v \<Rightarrow> Inr v)"

definition JSON_stringify :: "json \<Rightarrow> contents" where
  "JSON_stringify v = Json v"

text \<open>Truthiness of a value that may be \<^verbatim>\<open>undefined\<close> (\<open>None\<close>).\<close>

fun truthy :: "json option \<Rightarrow> bool" where
  "truthy None = False"
| "truthy (Some JNull) = False"
| "truthy (Some (JBool b)) = b"
| "truthy (Some (JNum n)) = (n \<noteq> 0)"
| "truthy (Some (JStr s)) = (s \<noteq> [])"
| "truthy (Some (JArr _)) = True"
| "truthy (Some (JObj _)) = True"

text \<open>\<^verbatim>\<open>typeof v === "object"\<close>: true of \<^verbatim>\<open>null\<close>, arrays and objects.\<close>

fun typeof_object :: "json \<Rightarrow> bool" where
  "typeof_object JNull = True"
| "typeof_object (JArr _) = True"
| "typeof_object (JObj _) = True"
| "typeof_object _ = False"

text \<open>
  \<^verbatim>\<open>v.name\<close> for the property names the manager reads (\<^verbatim>\<open>access_token\<close>,
  \<^verbatim>\<open>refresh_token\<close>, \<^verbatim>\<open>expiry_date\<close>; none is an index or \<^verbatim>\<open>length\<close>): a TypeError on
  \<^verbatim>\<open>null\<close>, the property of an object, \<^verbatim>\<open>undefined\<close> on everything else.
\<close>

fun get_prop :: "json \<Rightarrow> string \<Rightarrow> error + json option" where
  "get_prop JNull name = Inl TypeError"
| "get_prop (JObj ps) name = Inr (map_of ps name)"
| "get_prop _ name = Inr None"

text \<open>Decimal digits of a number, for \<^verbatim>\<open>${Date.now()}\<close> and array indices.\<close>

fun decimal :: "nat \<Rightarrow> string" where
  "decimal n =
     (if n < 10 then [char_of (48 + n)]
      else decimal (n div 10) @ [char_of (48 + n mod 10)])"

declare decimal.simps [simp del]

text \<open>
  The own enumerable properties that an object spread \<^verbatim>\<open>{...v}\<close> copies: those of an
  object, the indexed elements of an array, the indexed characters of a string, none
  of \<^verbatim>\<open>null\<close>, a number or a boolean.
\<close>

fun own_props :: "json \<Rightarrow> props" where
  "own_props (JObj ps) = ps"
| "own_props (JArr vs) = zip (map decimal [0..<length vs]) vs"
| "own_props (JStr cs) = zip (map decimal [0..<length cs]) (map (\<lambda>c. JStr [c]) cs)"
| "own_props _ = []"

text \<open>
  \<^verbatim>\<open>{...target, ...source}\<close>: the properties of \<open>source\<close> are set in \<open>target\<close>, in
  their order. A name that a list gives twice counts once, with the value that
  \<^const>\<open>map_of\<close> reads.
\<close>

definition spread :: "props \<Rightarrow> props \<Rightarrow> props" where
  "spread target source = fold (\<lambda>(k, v). AList.update k v) (AList.clearjunk source) target"

text \<open>
  \<^verbatim>\<open>{...obj, name: v}\<close> where \<open>v\<close> may be \<^verbatim>\<open>undefined\<close>: the property then is undefined
  whatever \<open>obj\<close> held under that name.
\<close>

definition set_prop :: "string \<Rightarrow> json option \<Rightarrow> props \<Rightarrow> props" where
  "set_prop name v obj =
     (case v of None \<Rightarrow> AList.delete name obj | Some x \<Rightarrow> AList.update name x obj)"

subsection \<open>The state\<close>

datatype ShutdownPhase = RUNNING | PREPARING | FINALIZING | COMPLETE

fun phase_name :: "ShutdownPhase \<Rightarrow> string" where
  "phase_name RUNNING = ''running''"
| "phase_name PREPARING = ''preparing''"
| "phase_name FINALIZING = ''finalizing''"
| "phase_name COMPLETE = ''complete''"

datatype op_status = Pending | InProgress | Completed | Failed

text \<open>The interface \<^verbatim>\<open>Operation\<close>, without the promise itself.\<close>

record operation =
  op_id :: string
  status :: op_status
  resources :: "string list"
  startTime :: nat

text \<open>The calls by which the manager changes its environment, in the order it makes them.\<close>

datatype event =
    WriteFile string contents
  | Unlink string
  | Rename string string
  | Mkdir string
  | RefreshAccessToken

text \<open>
  \<open>tokenPath\<close>, \<open>shutdownPhase\<close>, \<open>pendingOperations\<close> and \<open>tokenListener\<close> (installed
  or \<^verbatim>\<open>null\<close>) are the fields of \<^verbatim>\<open>TokenManager\<close>; \<open>locks\<close> is the map of its
  \<^verbatim>\<open>FileLock\<close>, \<open>tempFiles\<close> the map of its \<^verbatim>\<open>TempFileManager\<close>, \<open>credentials\<close> is
  \<^verbatim>\<open>oauth2Client.credentials\<close>. The rest is the environment: the files by path;
  whether the directory of the token file exists (the temporary files lie beside the
  token file, so it is the directory of every path the manager uses); the value of
  \<^verbatim>\<open>Date.now()\<close>; the coming values of \<^verbatim>\<open>Math.random().toString(36).substring(2)\<close>;
  and \<open>faults\<close>, what the file system has in store for the coming calls: each call
  takes the head, and \<open>Some code\<close> makes it fail with that code before it does anything.
\<close>

record system =
  tokenPath :: string
  shutdownPhase :: ShutdownPhase
  pendingOperations :: "(string \<times> operation) list"
  tokenListener :: bool
  locks :: "string set"
  tempFiles :: "(string \<times> string) list"
  credentials :: props
  files :: "string \<rightharpoonup> contents"
  directory :: bool
  faults :: "errno option list"
  events :: "event list"
  clock :: nat
  randoms :: "string list"

text \<open>
  The state of a running \<^verbatim>\<open>saveTokensInternal\<close> or \<^verbatim>\<open>refreshTokensInternal\<close>: the
  system and the local variable \<^verbatim>\<open>tempTokenPath\<close>, which the method sets to \<^verbatim>\<open>null\<close>
  again once the temporary file is gone and which its \<^verbatim>\<open>catch\<close> blocks read.
\<close>

record frame = system +
  tempTokenPath :: "string option"

definition enter :: "system \<Rightarrow> frame" where
  "enter s = system.extend s (frame.fields None)"

definition leave :: "frame \<Rightarrow> system" where
  "leave f = system.truncate f"

subsection \<open>Computations that may throw\<close>

type_synonym ('a, 's) action = "'s \<Rightarrow> (error + 'a) \<times> 's"

definition succeed :: "'a \<Rightarrow> ('a, 's) action" where
  "succeed x s = (Inr x, s)"

definition throw :: "error \<Rightarrow> ('a, 's) action" where
  "throw e s = (Inl e, s)"

text \<open>A computation without effect that returns or throws.\<close>

definition lift :: "error + 'a \<Rightarrow> ('a, 's) action" where
  "lift r s = (r, s)"

text \<open>\<^verbatim>\<open>const x = await a; f(x)\<close>\<close>

definition andThen :: "('a, 's) action \<Rightarrow> ('a \<Rightarrow> ('b, 's) action) \<Rightarrow> ('b, 's) action" where
  "andThen a f s = (case a s of (Inl e, s') \<Rightarrow> (Inl e, s') | (Inr x, s') \<Rightarrow> f x s')"

text \<open>\<^verbatim>\<open>try { a } catch (e) { h(e) }\<close>\<close>

definition tryCatch :: "('a, 's) action \<Rightarrow> (error \<Rightarrow> ('a, 's) action) \<Rightarrow> ('a, 's) action" where
  "tryCatch a h s = (case a s of (Inl e, s') \<Rightarrow> h e s' | (Inr x, s') \<Rightarrow> (Inr x, s'))"

text \<open>\<^verbatim>\<open>try { a } finally { f }\<close> for a cleanup that does not throw.\<close>

definition tryFinally :: "('a, 's) action \<Rightarrow> ('s \<Rightarrow> 's) \<Rightarrow> ('a, 's) action" where
  "tryFinally a f s = (case a s of (r, s') \<Rightarrow> (r, f s'))"

text \<open>A synchronous update of the state.\<close>

definition perform :: "('s \<Rightarrow> 's) \<Rightarrow> (unit, 's) action" where
  "perform f s = (Inr (), f s)"

text \<open>\<^verbatim>\<open>a.then(() => true).catch(() => false)\<close>\<close>

definition succeeds :: "(unit, 's) action \<Rightarrow> (bool, 's) action" where
  "succeeds a = tryCatch (andThen a (\<lambda>_. succeed True)) (\<lambda>_. succeed False)"

text \<open>\<^verbatim>\<open>a.catch(() => {})\<close>, and \<^verbatim>\<open>try { a } catch { /* ignore */ }\<close>\<close>

definition ignoring :: "(unit, 's) action \<Rightarrow> (unit, 's) action" where
  "ignoring a = tryCatch a (\<lambda>_. succeed ())"

text \<open>\<^verbatim>\<open>let x; try { x = await a } catch (e) { return h(e) }; rest(x)\<close>\<close>

definition tryOrReturn ::
  "('a, 's) action \<Rightarrow> (error \<Rightarrow> ('b, 's) action) \<Rightarrow> ('a \<Rightarrow> ('b, 's) action) \<Rightarrow> ('b, 's) action" where
  "tryOrReturn a h rest s = (case a s of (Inl e, s') \<Rightarrow> h e s' | (Inr x, s') \<Rightarrow> rest x s')"

text \<open>
  \<^verbatim>\<open>if (this.shutdownPhase !== ShutdownPhase.RUNNING) { console.error(...); return; }\<close>
  in front of the rest of a function body.
\<close>

definition whenRunning :: "(unit, 'z system_scheme) action \<Rightarrow> (unit, 'z system_scheme) action" where
  "whenRunning rest s = (if shutdownPhase s \<noteq> RUNNING then (Inr (), s) else rest s)"

subsection \<open>The file system\<close>

definition take_fault :: "'z system_scheme \<Rightarrow> errno option \<times> 'z system_scheme" where
  "take_fault s = (case faults s of [] \<Rightarrow> (None, s) | f # fs \<Rightarrow> (f, s\<lparr>faults := fs\<rparr>))"

text \<open>
  A call of the file system: it fails with the code that \<open>faults\<close> has in store for
  it, or does what \<open>body\<close> says, which fails for reasons of its own (\<^verbatim>\<open>ENOENT\<close> for a
  path without a file).
\<close>

definition fs_call ::
  "('z system_scheme \<Rightarrow> (error + 'a) \<times> 'z system_scheme) \<Rightarrow> ('a, 'z system_scheme) action" where
  "fs_call body s =
     (case take_fault s of
        (Some code, s') \<Rightarrow> (Inl (FsError code), s')
      | (None, s') \<Rightarrow> body s')"

definition fs_access :: "string \<Rightarrow> (unit, 'z system_scheme) action" where
  "fs_access p = fs_call (\<lambda>s.
     case files s p of None \<Rightarrow> (Inl (FsError ENOENT), s) | Some _ \<Rightarrow> (Inr (), s))"

definition fs_readFile :: "string \<Rightarrow> (contents, 'z system_scheme) action" where
  "fs_readFile p = fs_call (\<lambda>s.
     case files s p of None \<Rightarrow> (Inl (FsError ENOENT), s) | Some t \<Rightarrow> (Inr t, s))"

text \<open>A file is created or replaced as a whole; its directory has to exist.\<close>

definition fs_writeFile :: "string \<Rightarrow> contents \<Rightarrow> (unit, 'z system_scheme) action" where
  "fs_writeFile p t = fs_call (\<lambda>s.
     if \<not> directory s then (Inl (FsError ENOENT), s)
     else (Inr (), s\<lparr>files := (files s)(p \<mapsto> t), events := events s @ [WriteFile p t]\<rparr>))"

definition fs_unlink :: "string \<Rightarrow> (unit, 'z system_scheme) action" where
  "fs_unlink p = fs_call (\<lambda>s.
     case files s p of
       None \<Rightarrow> (Inl (FsError ENOENT), s)
     | Some _ \<Rightarrow> (Inr (), s\<lparr>files := (files s)(p := None), events := events s @ [Unlink p]\<rparr>))"

definition fs_rename :: "string \<Rightarrow> string \<Rightarrow> (unit, 'z system_scheme) action" where
  "fs_rename old new = fs_call (\<lambda>s.
     case files s old of
       None \<Rightarrow> (Inl (FsError ENOENT), s)
     | Some t \<Rightarrow>
         (Inr (), s\<lparr>files := ((files s)(old := None))(new \<mapsto> t),
                    events := events s @ [Rename old new]\<rparr>))"

text \<open>\<^verbatim>\<open>mkdir(path.dirname(file), { recursive: true })\<close>, recorded with the file.\<close>

definition fs_mkdir_for :: "string \<Rightarrow> (unit, 'z system_scheme) action" where
  "fs_mkdir_for file = fs_call (\<lambda>s.
     (Inr (), s\<lparr>directory := True, events := events s @ [Mkdir file]\<rparr>))"

text \<open>\<^verbatim>\<open>fsSync.existsSync(path.dirname(file))\<close> returns and never throws.\<close>

definition fs_existsSync_dir :: "'z system_scheme \<Rightarrow> bool" where
  "fs_existsSync_dir s = directory s"

subsection \<open>TempFileManager\<close>

definition take_random :: "'z system_scheme \<Rightarrow> string \<times> 'z system_scheme" where
  "take_random s = (case randoms s of [] \<Rightarrow> ([], s) | r # rs \<Rightarrow> (r, s\<lparr>randoms := rs\<rparr>))"

definition createTempFile :: "string \<Rightarrow> string \<Rightarrow> (string, 'z system_scheme) action" where
  "createTempFile baseFile operationId s =
     (case take_random s of (r, s1) \<Rightarrow>
        (let tempPath = baseFile @ ''.'' @ decimal (clock s1) @ ''.'' @ r @ ''.tmp''
         in (Inr tempPath, s1\<lparr>tempFiles := AList.update tempPath operationId (tempFiles s1)\<rparr>)))"

definition isTemporaryFile :: "string \<Rightarrow> 'z system_scheme \<Rightarrow> bool" where
  "isTemporaryFile path s = (map_of (tempFiles s) path \<noteq> None)"

definition releaseTemporaryFile :: "string \<Rightarrow> 'z system_scheme \<Rightarrow> 'z system_scheme" where
  "releaseTemporaryFile path s = s\<lparr>tempFiles := AList.delete path (tempFiles s)\<rparr>"

text \<open>
  One round of the loop of \<^verbatim>\<open>cleanupAllTemporaryFiles\<close>: a file that is there is
  unlinked, and the path is forgotten unless the unlink threw.
\<close>

definition cleanup_one :: "string \<Rightarrow> (unit, 'z system_scheme) action" where
  "cleanup_one tempPath =
     tryCatch
       (andThen (tryCatch (andThen (fs_access tempPath) (\<lambda>_. succeed True)) (\<lambda>_. succeed False))
          (\<lambda>there.
             andThen (if there then fs_unlink tempPath else succeed ())
               (\<lambda>_. perform (releaseTemporaryFile tempPath))))
       (\<lambda>error. succeed ())"

fun cleanup_each :: "string list \<Rightarrow> (unit, 'z system_scheme) action" where
  "cleanup_each [] = succeed ()"
| "cleanup_each (tempPath # tempPaths) =
     andThen (cleanup_one tempPath) (\<lambda>_. cleanup_each tempPaths)"

definition cleanupAllTemporaryFiles :: "(unit, 'z system_scheme) action" where
  "cleanupAllTemporaryFiles s = cleanup_each (map fst (tempFiles s)) s"

subsection \<open>FileLock\<close>

text \<open>
  The loop of \<^verbatim>\<open>acquire\<close>. Between two looks at the lock the caller sleeps 100 ms;
  no other operation runs in between here, so a lock that is taken stays taken until
  the timeout.
\<close>

function acquire_from ::
  "string \<Rightarrow> nat \<Rightarrow> nat \<Rightarrow> 'z system_scheme \<Rightarrow> bool \<times> 'z system_scheme" where
  "acquire_from filePath timeout start s =
     (if int (clock s) - int start < int timeout then
        if filePath \<notin> locks s then (True, s\<lparr>locks := insert filePath (locks s)\<rparr>)
        else acquire_from filePath timeout start (s\<lparr>clock := clock s + 100\<rparr>)
      else (False, s))"
  by pat_completeness auto
termination
  by (relation "measure (\<lambda>(filePath, timeout, start, s). start + timeout - clock s)") auto

declare acquire_from.simps [simp del]

definition acquire :: "string \<Rightarrow> nat \<Rightarrow> (bool, 'z system_scheme) action" where
  "acquire filePath timeout s =
     (case acquire_from filePath timeout (clock s) s of (got, s') \<Rightarrow> (Inr got, s'))"

definition release :: "string \<Rightarrow> 'z system_scheme \<Rightarrow> 'z system_scheme" where
  "release filePath s = s\<lparr>locks := locks s - {filePath}\<rparr>"

definition withLock ::
  "string \<Rightarrow> ('a, 'z system_scheme) action \<Rightarrow> ('a, 'z system_scheme) action" where
  "withLock filePath operation =
     andThen (acquire filePath 5000) (\<lambda>lockAcquired.
       if \<not> lockAcquired then throw (Error (''Failed to acquire lock for '' @ filePath))
       else tryFinally operation (release filePath))"

subsection \<open>withRetry\<close>

text \<open>
  The loop of \<^verbatim>\<open>withRetry\<close> from attempt number \<open>attempt\<close> on, with the error of the
  attempt before; \<open>delay\<close> ms pass between two attempts.
\<close>

function withRetry_from ::
  "('a, 'z system_scheme) action \<Rightarrow> nat \<Rightarrow> nat \<Rightarrow> nat \<Rightarrow> error \<Rightarrow> ('a, 'z system_scheme) action" where
  "withRetry_from operation retries delay attempt lastError s =
     (if attempt < retries then
        (case operation s of
           (Inr x, s') \<Rightarrow> (Inr x, s')
         | (Inl e, s') \<Rightarrow>
             withRetry_from operation retries delay (attempt + 1) e
               (if attempt < retries - 1 then s'\<lparr>clock := clock s' + delay\<rparr> else s'))
      else (Inl lastError, s))"
  by pat_completeness auto
termination
  by (relation "measure (\<lambda>(operation, retries, delay, attempt, lastError, s). retries - attempt)")
    auto

declare withRetry_from.simps [simp del]

definition withRetry ::
  "('a, 'z system_scheme) action \<Rightarrow> nat \<Rightarrow> nat \<Rightarrow> ('a, 'z system_scheme) action" where
  "withRetry operation retries delay = withRetry_from operation retries delay 0 Undefined"

subsection \<open>The registry of pending operations\<close>

text \<open>
  The body of \<^verbatim>\<open>registerOperation\<close>, which runs at the call: a rejection outside
  the phase \<^verbatim>\<open>running\<close>, the entry under \<open>opId\<close> set otherwise (\<^verbatim>\<open>Map.set\<close> replaces
  the value of a key that is there).
\<close>

definition registerOperation :: "string \<Rightarrow> string list \<Rightarrow> (unit, 'z system_scheme) action" where
  "registerOperation opId res s =
     (if shutdownPhase s \<noteq> RUNNING then
        (Inl (Error (''Cannot start new operations during shutdown phase: ''
                      @ phase_name (shutdownPhase s))), s)
      else
        (Inr (), s\<lparr>pendingOperations :=
                      AList.update opId
                        \<lparr>op_id = opId, status = InProgress, resources = res, startTime = clock s\<rparr>
                        (pendingOperations s)\<rparr>))"

text \<open>
  The \<^verbatim>\<open>then\<close> and \<^verbatim>\<open>catch\<close> callbacks of the tracked promise, which run when the
  operation settles with \<open>outcome\<close>: \<^verbatim>\<open>this.pendingOperations.delete(id)\<close>, and the
  result returned or the error thrown again.
\<close>

definition settle :: "string \<Rightarrow> error + 'a \<Rightarrow> ('a, 'z system_scheme) action" where
  "settle opId outcome s =
     (outcome, s\<lparr>pendingOperations := AList.delete opId (pendingOperations s)\<rparr>)"

text \<open>
  \<^verbatim>\<open>this.registerOperation(id, this.operationInternal())\<close> with nothing else in
  between: the argument is evaluated first, so the internal method runs whatever the
  phase is; then the registration; then the settlement.
\<close>

definition tracked :: "string \<Rightarrow> ('a, system) action \<Rightarrow> ('a, system) action" where
  "tracked opId operation s =
     (case operation s of (outcome, s1) \<Rightarrow>
        (case registerOperation opId [] s1 of
           (Inl rejected, s2) \<Rightarrow> (Inl rejected, s2)
         | (Inr _, s2) \<Rightarrow> settle opId outcome s2))"

text \<open>
  \<^verbatim>\<open>waitForPendingOperations\<close>. No operation runs while this one waits, so the
  operations in the registry do not settle, the timer wins the race after \<open>timeout\<close>
  ms, and the temporary files among their resources are released and unlinked.
\<close>

fun release_resources :: "string list \<Rightarrow> (unit, 'z system_scheme) action" where
  "release_resources [] = succeed ()"
| "release_resources (resource # rest) =
     andThen
       (\<lambda>s. if isTemporaryFile resource s
            then andThen (perform (releaseTemporaryFile resource))
                   (\<lambda>_. ignoring (fs_unlink resource)) s
            else (Inr (), s))
       (\<lambda>_. release_resources rest)"

fun release_operations :: "operation list \<Rightarrow> (unit, 'z system_scheme) action" where
  "release_operations [] = succeed ()"
| "release_operations (p # ps) =
     andThen (release_resources (resources p)) (\<lambda>_. release_operations ps)"

definition waitForPendingOperations :: "nat \<Rightarrow> (unit, 'z system_scheme) action" where
  "waitForPendingOperations timeout s =
     (if pendingOperations s = [] then (Inr (), s)
      else
        (let s1 = s\<lparr>clock := clock s + timeout\<rparr>
         in if pendingOperations s1 \<noteq> []
            then release_operations (map snd (pendingOperations s1)) s1
            else (Inr (), s1)))"

subsection \<open>TokenManager\<close>

definition removeTokenListener :: "'z system_scheme \<Rightarrow> 'z system_scheme" where
  "removeTokenListener s = (if tokenListener s then s\<lparr>tokenListener := False\<rparr> else s)"

text \<open>\<^verbatim>\<open>this.oauth2Client.setCredentials(tokens)\<close>\<close>

definition setCredentials :: "props \<Rightarrow> 'z system_scheme \<Rightarrow> 'z system_scheme" where
  "setCredentials tokens s = s\<lparr>credentials := tokens\<rparr>"

definition markAsShuttingDown :: "(unit, system) action" where
  "markAsShuttingDown s =
     (if shutdownPhase s \<noteq> RUNNING then (Inr (), s)
      else
        andThen (perform (\<lambda>s. removeTokenListener (s\<lparr>shutdownPhase := PREPARING\<rparr>)))
          (\<lambda>_. andThen (waitForPendingOperations 3000)
          (\<lambda>_. andThen (perform (\<lambda>s. s\<lparr>shutdownPhase := FINALIZING\<rparr>))
          (\<lambda>_. andThen cleanupAllTemporaryFiles
          (\<lambda>_. perform (\<lambda>s. s\<lparr>shutdownPhase := COMPLETE\<rparr>))))) s)"

definition ensureTokenDirectoryExists :: "(unit, 'z system_scheme) action" where
  "ensureTokenDirectoryExists s =
     tryCatch (fs_mkdir_for (tokenPath s))
       (\<lambda>error. case error of
                  FsError code \<Rightarrow> if code \<noteq> EEXIST then throw error else succeed ()
                | _ \<Rightarrow> succeed ()) s"

text \<open>
  \<^verbatim>\<open>!tokens || typeof tokens !== "object" || !tokens.access_token\<close>, the test of
  \<^verbatim>\<open>loadSavedTokensInternal\<close> and of the verification in \<^verbatim>\<open>saveTokensInternal\<close>. The
  property is read only of a truthy value, so never of \<^verbatim>\<open>null\<close>.
\<close>

definition invalid_token_format :: "json \<Rightarrow> bool" where
  "invalid_token_format tokens =
     (\<not> truthy (Some tokens) \<or> \<not> typeof_object tokens \<or>
      \<not> truthy (case get_prop tokens ''access_token'' of Inl _ \<Rightarrow> None | Inr v \<Rightarrow> v))"

text \<open>
  The blocks that \<^verbatim>\<open>saveTokensInternal\<close> and \<^verbatim>\<open>refreshTokensInternal\<close> have in
  common. In both, \<open>tempPath\<close> is the path that \<^verbatim>\<open>createTempFile\<close> returned: the
  methods read it as \<^verbatim>\<open>tempTokenPath!\<close>, only at points where the variable still
  holds it.

  \<^verbatim>\<open>if (tempTokenPath) { releaseTemporaryFile(tempTokenPath); tempTokenPath = null; }\<close>
\<close>

definition release_and_forget :: "frame \<Rightarrow> frame" where
  "release_and_forget f =
     (case tempTokenPath f of
        None \<Rightarrow> f
      | Some p \<Rightarrow> (releaseTemporaryFile p f)\<lparr>tempTokenPath := None\<rparr>)"

text \<open>The body of \<^verbatim>\<open>catch (renameError)\<close>.\<close>

definition copy_approach :: "props \<Rightarrow> string \<Rightarrow> (unit, frame) action" where
  "copy_approach tokens tempPath f =
     andThen (succeeds (fs_access tempPath)) (\<lambda>tempExists.
       andThen
         (if \<not> tempExists then fs_writeFile (tokenPath f) (JSON_stringify (JObj tokens))
          else
            andThen (fs_readFile tempPath) (\<lambda>tempContent.
            andThen (fs_writeFile (tokenPath f) tempContent) (\<lambda>_.
            ignoring (fs_unlink tempPath))))
         (\<lambda>_. perform release_and_forget)) f"

text \<open>The rename with its retries, and the copy approach when it fails.\<close>

definition rename_or_copy :: "props \<Rightarrow> string \<Rightarrow> (unit, frame) action" where
  "rename_or_copy tokens tempPath f =
     tryCatch
       (andThen (withRetry (fs_rename tempPath (tokenPath f)) 3 300)
          (\<lambda>_. perform release_and_forget))
       (\<lambda>renameError. copy_approach tokens tempPath) f"

text \<open>The body of the outermost \<^verbatim>\<open>catch (error)\<close>, before the error is thrown again.\<close>

definition cleanup_after_error :: "(unit, frame) action" where
  "cleanup_after_error f =
     (case tempTokenPath f of
        None \<Rightarrow> (Inr (), f)
      | Some p \<Rightarrow>
          tryCatch
            (andThen (succeeds (fs_access p)) (\<lambda>tempExists.
             andThen (if tempExists then fs_unlink p else succeed ()) (\<lambda>_.
             perform (releaseTemporaryFile p))))
            (\<lambda>cleanupError. succeed ()) f)"

subsection \<open>refreshTokensInternal\<close>

text \<open>
  The \<^verbatim>\<open>try\<close> block that reads the existing tokens and merges them:
  \<^verbatim>\<open>{ ...currentTokens, ...newTokens, refresh_token: newTokens.refresh_token || currentTokens.refresh_token }\<close>,
  and \<^verbatim>\<open>{ ...newTokens }\<close> when there is no file or reading it fails.
\<close>

definition merge_existing :: "props \<Rightarrow> (props, frame) action" where
  "merge_existing newTokens f =
     tryCatch
       (andThen ensureTokenDirectoryExists (\<lambda>_.
        andThen (succeeds (fs_access (tokenPath f))) (\<lambda>fileExists.
          if fileExists then
            andThen (fs_readFile (tokenPath f)) (\<lambda>fileContent.
            andThen (lift (JSON_parse fileContent)) (\<lambda>currentTokens.
            andThen (lift (get_prop currentTokens ''refresh_token'')) (\<lambda>current_refresh_token.
              succeed
                (set_prop ''refresh_token''
                   (if truthy (map_of newTokens ''refresh_token'')
                    then map_of newTokens ''refresh_token''
                    else current_refresh_token)
                   (spread (spread [] (own_props currentTokens)) newTokens)))))
          else succeed (spread [] newTokens))))
       (\<lambda>readError. succeed (spread [] newTokens)) f"

text \<open>The verification of the temporary file in \<^verbatim>\<open>refreshTokensInternal\<close>.\<close>

definition verify_refreshed :: "string \<Rightarrow> (unit, frame) action" where
  "verify_refreshed tempPath =
     tryCatch
       (andThen (fs_readFile tempPath) (\<lambda>fileContent.
        andThen (lift (JSON_parse fileContent)) (\<lambda>parsedTokens.
          if \<not> truthy (Some parsedTokens) \<or> \<not> typeof_object parsedTokens
          then throw (Error ''Token verification failed during auto-refresh'')
          else succeed ())))
       (\<lambda>verifyError.
          andThen (perform (\<lambda>f. case tempTokenPath f of
                                  None \<Rightarrow> f
                                | Some p \<Rightarrow> releaseTemporaryFile p f)) (\<lambda>_.
          andThen (ignoring (fs_unlink tempPath)) (\<lambda>_.
          throw verifyError)))"

text \<open>The function that \<^verbatim>\<open>refreshTokensInternal\<close> runs under the lock.\<close>

definition refreshTokens_locked :: "props \<Rightarrow> string \<Rightarrow> (unit, frame) action" where
  "refreshTokens_locked newTokens tempPath =
     whenRunning
       (andThen (merge_existing newTokens) (\<lambda>updatedTokens.
        whenRunning
          (andThen
             (withRetry (fs_writeFile tempPath (JSON_stringify (JObj updatedTokens))) 3 300) (\<lambda>_.
           andThen (verify_refreshed tempPath) (\<lambda>_.
           whenRunning (rename_or_copy updatedTokens tempPath))))))"

definition refreshTokensInternal :: "props \<Rightarrow> (unit, system) action" where
  "refreshTokensInternal newTokens s =
     (if shutdownPhase s \<noteq> RUNNING then (Inr (), s)
      else
        (let operationId = ''token-refresh-'' @ decimal (clock s) in
         case tryCatch
                (andThen (createTempFile (tokenPath s) operationId) (\<lambda>tempPath.
                 andThen (perform (\<lambda>f. f\<lparr>tempTokenPath := Some tempPath\<rparr>)) (\<lambda>_.
                 withLock (tokenPath s) (refreshTokens_locked newTokens tempPath))))
                (\<lambda>error. andThen cleanup_after_error (\<lambda>_. throw error))
                (enter s)
         of (outcome, f) \<Rightarrow> (outcome, leave f)))"

subsection \<open>loadSavedTokens\<close>

text \<open>
  A value that passes the test of the format is an object, whose properties become
  the credentials of the client (\<^const>\<open>own_props\<close> of an object are its properties).
\<close>

definition loadSavedTokensInternal :: "(bool, system) action" where
  "loadSavedTokensInternal s =
     tryCatch
       (andThen ensureTokenDirectoryExists (\<lambda>_.
        andThen (succeeds (fs_access (tokenPath s))) (\<lambda>fileExists.
          if \<not> fileExists then succeed False
          else
            tryOrReturn (fs_readFile (tokenPath s)) (\<lambda>readError. succeed False) (\<lambda>fileContent.
            tryOrReturn (lift (JSON_parse fileContent))
              (\<lambda>parseError. andThen (ignoring (fs_unlink (tokenPath s))) (\<lambda>_. succeed False))
              (\<lambda>tokens.
                 if invalid_token_format tokens
                 then andThen (ignoring (fs_unlink (tokenPath s))) (\<lambda>_. succeed False)
                 else andThen (perform (setCredentials (own_props tokens)))
                        (\<lambda>_. succeed True))))))
       (\<lambda>error.
          andThen
            (case error of
               FsError code \<Rightarrow>
                 if code \<noteq> ENOENT then ignoring (fs_unlink (tokenPath s)) else succeed ()
             | _ \<Rightarrow> succeed ())
            (\<lambda>_. succeed False)) s"

definition loadSavedTokens :: "(bool, system) action" where
  "loadSavedTokens = tracked ''load-tokens'' loadSavedTokensInternal"

subsection \<open>refreshTokensIfNeeded and validateTokens\<close>

text \<open>
  The number that \<^verbatim>\<open>expiryDate - 5 * 60 * 1000\<close> makes of \<^verbatim>\<open>expiryDate\<close>. The field is
  declared \<^verbatim>\<open>number | null\<close>; the conversion is that of the language on numbers,
  booleans and \<^verbatim>\<open>null\<close>. A string, an array or an object, which the language would
  convert through its text, is read here as not a number (\<open>None\<close>), with which every
  comparison is false; the theorems that say when a credential is expired assume a
  number.
\<close>

fun to_number :: "json \<Rightarrow> int option" where
  "to_number (JNum n) = Some n"
| "to_number (JBool b) = Some (if b then 1 else 0)"
| "to_number JNull = Some 0"
| "to_number _ = None"

text \<open>
  The local constant \<^verbatim>\<open>isExpired\<close>:
  \<^verbatim>\<open>expiryDate ? Date.now() >= expiryDate - 5 * 60 * 1000 : !credentials.access_token\<close>
\<close>

definition isExpired :: "'z system_scheme \<Rightarrow> bool" where
  "isExpired s =
     (let expiryDate = map_of (credentials s) ''expiry_date'' in
      if truthy expiryDate then
        (case Option.bind expiryDate to_number of
           None \<Rightarrow> False
         | Some e \<Rightarrow> int (clock s) \<ge> e - 5 * 60 * 1000)
      else \<not> truthy (map_of (credentials s) ''access_token''))"

text \<open>
  \<^verbatim>\<open>await this.oauth2Client.refreshAccessToken()\<close>, the exchange with the provider:
  \<open>exchange\<close> is what the provider answers, an error or the credentials of the
  response. The call is recorded. The \<^verbatim>\<open>tokens\<close> event that the client emits on the
  way is the separate \<open>tokens_event\<close> below.
\<close>

definition refreshAccessToken :: "error + props \<Rightarrow> (props, 'z system_scheme) action" where
  "refreshAccessToken exchange s = (exchange, s\<lparr>events := events s @ [RefreshAccessToken]\<rparr>)"

definition refreshTokensIfNeededInternal :: "error + props \<Rightarrow> (bool, system) action" where
  "refreshTokensIfNeededInternal exchange s =
     (if isExpired s \<and> truthy (map_of (credentials s) ''refresh_token'') then
        tryCatch
          (andThen (refreshAccessToken exchange) (\<lambda>newTokens.
             if \<not> truthy (map_of newTokens ''access_token'')
             then throw (Error ''Received invalid tokens during refresh'')
             else andThen (perform (setCredentials newTokens)) (\<lambda>_. succeed True)))
          (\<lambda>refreshError.
             if (case refreshError of
                   GaxiosError response_error \<Rightarrow> response_error = Some ''invalid_grant''
                 | _ \<Rightarrow> False)
             then succeed False
             else succeed False) s
      else if \<not> truthy (map_of (credentials s) ''access_token'') \<and>
              \<not> truthy (map_of (credentials s) ''refresh_token'')
      then (Inr False, s)
      else (Inr True, s))"

definition refreshTokensIfNeeded :: "error + props \<Rightarrow> (bool, system) action" where
  "refreshTokensIfNeeded exchange = tracked ''refresh-tokens'' (refreshTokensIfNeededInternal exchange)"

definition validateTokensInternal :: "error + props \<Rightarrow> (bool, system) action" where
  "validateTokensInternal exchange s =
     (if \<not> truthy (map_of (credentials s) ''access_token'') then
        andThen loadSavedTokensInternal (\<lambda>loaded.
          if \<not> loaded then succeed False
          else (\<lambda>s1. if \<not> truthy (map_of (credentials s1) ''access_token'') then (Inr False, s1)
                     else refreshTokensIfNeededInternal exchange s1)) s
      else refreshTokensIfNeededInternal exchange s)"

definition validateTokens :: "error + props \<Rightarrow> (bool, system) action" where
  "validateTokens exchange = tracked ''validate-tokens'' (validateTokensInternal exchange)"

subsection \<open>saveTokens\<close>

text \<open>The function that \<^verbatim>\<open>saveTokensInternal\<close> runs under the lock.\<close>

definition saveTokens_locked :: "props \<Rightarrow> string \<Rightarrow> (unit, frame) action" where
  "saveTokens_locked tokens tempPath =
     whenRunning
       (andThen (withRetry (fs_writeFile tempPath (JSON_stringify (JObj tokens))) 3 300) (\<lambda>_.
        tryCatch
          (andThen (fs_readFile tempPath) (\<lambda>fileContent.
           andThen (lift (JSON_parse fileContent)) (\<lambda>parsedTokens.
             if invalid_token_format parsedTokens
             then throw (Error ''Token verification failed, invalid token format'')
             else
               whenRunning
                 (andThen (rename_or_copy tokens tempPath) (\<lambda>_.
                  perform (setCredentials tokens))))))
          (\<lambda>verifyError.
             andThen
               (\<lambda>f. case tempTokenPath f of
                      None \<Rightarrow> (Inr (), f)
                    | Some p \<Rightarrow>
                        tryCatch
                          (andThen (fs_unlink p) (\<lambda>_.
                           perform (\<lambda>f. (releaseTemporaryFile p f)\<lparr>tempTokenPath := None\<rparr>)))
                          (\<lambda>unlinkError. succeed ()) f)
               (\<lambda>_. throw verifyError))))"

definition saveTokensInternal :: "props \<Rightarrow> (unit, system) action" where
  "saveTokensInternal tokens s =
     (if shutdownPhase s \<noteq> RUNNING then
        (Inl (Error (''Skipping token save during shutdown phase: ''
                      @ phase_name (shutdownPhase s))), s)
      else
        (let operationId = ''save-tokens-'' @ decimal (clock s) in
         case tryCatch
                (andThen ensureTokenDirectoryExists (\<lambda>_.
                 andThen (createTempFile (tokenPath s) operationId) (\<lambda>tempPath.
                 andThen (perform (\<lambda>f. f\<lparr>tempTokenPath := Some tempPath\<rparr>)) (\<lambda>_.
                 withLock (tokenPath s) (saveTokens_locked tokens tempPath)))))
                (\<lambda>error. andThen cleanup_after_error (\<lambda>_. throw error))
                (enter s)
         of (outcome, f) \<Rightarrow> (outcome, leave f)))"

definition saveTokens :: "props \<Rightarrow> (unit, system) action" where
  "saveTokens tokens = tracked ''save-tokens'' (saveTokensInternal tokens)"

subsection \<open>clearTokens, syncSaveTokens, emergencyShutdown, the listener\<close>

definition clearTokensInternal :: "(unit, system) action" where
  "clearTokensInternal s =
     tryCatch (andThen (perform (setCredentials [])) (\<lambda>_. fs_unlink (tokenPath s)))
       (\<lambda>error. succeed ()) s"

definition clearTokens :: "(unit, system) action" where
  "clearTokens = tracked ''clear-tokens'' clearTokensInternal"

definition syncSaveTokens :: "props \<Rightarrow> system \<Rightarrow> system" where
  "syncSaveTokens tokens s =
     (if shutdownPhase s = COMPLETE then s
      else
        snd (tryCatch
               (andThen
                  (\<lambda>s. if \<not> fs_existsSync_dir s then fs_mkdir_for (tokenPath s) s
                       else (Inr (), s)) (\<lambda>_.
                andThen (fs_writeFile (tokenPath s) (JSON_stringify (JObj tokens))) (\<lambda>_.
                perform (setCredentials tokens))))
               (\<lambda>error. succeed ()) s))"

definition emergencyShutdown :: "system \<Rightarrow> system" where
  "emergencyShutdown s =
     (let s1 = removeTokenListener (s\<lparr>shutdownPhase := FINALIZING\<rparr>);
          s2 = (if truthy (map_of (credentials s1) ''access_token'')
                then syncSaveTokens (credentials s1) s1
                else s1)
      in s2\<lparr>shutdownPhase := COMPLETE\<rparr>)"

text \<open>
  The listener that \<^verbatim>\<open>setupTokenRefresh\<close> installs on the \<^verbatim>\<open>tokens\<close> event of the
  client, called with the new tokens while it is installed. It does not await the
  operation it registers, and the operation logs its error instead of throwing it.
\<close>

definition tokens_event :: "props \<Rightarrow> system \<Rightarrow> system" where
  "tokens_event newTokens s =
     (if \<not> tokenListener s then s
      else if shutdownPhase s \<noteq> RUNNING then s
      else snd (tracked (''token-refresh-'' @ decimal (clock s))
                  (tryCatch (refreshTokensInternal newTokens) (\<lambda>err. succeed ())) s))"

text \<open>
  The manager as its constructor leaves it: running, nothing pending, the listener
  installed; \<open>env\<close> gives the token path, the credentials of the client and the
  environment.
\<close>

definition TokenManager_constructor :: "system \<Rightarrow> system" where
  "TokenManager_constructor env =
     env\<lparr>shutdownPhase := RUNNING, pendingOperations := [], tokenListener := True,
         locks := {}, tempFiles := []\<rparr>"

text \<open>
  The path that \<^verbatim>\<open>createTempFile\<close> makes for the token file when it is called in
  state \<open>s\<close>.
\<close>

definition temp_path_of :: "system \<Rightarrow> string" where
  "temp_path_of s =
     tokenPath s @ ''.'' @ decimal (clock s) @ ''.'' @ fst (take_random s) @ ''.tmp''"

subsection \<open>Example states\<close>

text \<open>A manager just constructed, on an empty directory, with a client that holds nothing.\<close>

definition example_manager :: system where
  "example_manager =
     TokenManager_constructor
       \<lparr>tokenPath = ''/cfg/tokens.json'', shutdownPhase = RUNNING, pendingOperations = [],
        tokenListener = False, locks = {}, tempFiles = [], credentials = [],
        files = Map.empty, directory = True, faults = [], events = [],
        clock = 1700000000000, randoms = [''k3x9'']\<rparr>"

text \<open>The same with a token file that holds an access token and the refresh token R1.\<close>

definition manager_with_saved_tokens :: system where
  "manager_with_saved_tokens =
     example_manager
       \<lparr>files := [''/cfg/tokens.json'' \<mapsto>
          Json (JObj [(''access_token'', JStr ''A1''), (''refresh_token'', JStr ''R1'')])]\<rparr>"

text \<open>The same with a token file that is not JSON.\<close>

definition manager_with_garbage :: system where
  "manager_with_garbage =
     example_manager\<lparr>files := [''/cfg/tokens.json'' \<mapsto> NotJson ''{access_tok'']\<rparr>"

text \<open>A client that holds an access token and a refresh token, with the given expiry.\<close>

definition manager_with_expiry :: "int \<Rightarrow> system" where
  "manager_with_expiry e =
     example_manager
       \<lparr>credentials := [(''access_token'', JStr ''A1''), (''refresh_token'', JStr ''R1''),
                        (''expiry_date'', JNum e)]\<rparr>"

text \<open>A client that holds an access token that expired a second ago and no refresh token.\<close>

definition manager_expired_no_refresh :: system where
  "manager_expired_no_refresh =
     example_manager
       \<lparr>credentials := [(''access_token'', JStr ''A1''), (''expiry_date'', JNum 1699999999000)]\<rparr>"

text \<open>
  Two invocations of \<^verbatim>\<open>saveTokens\<close> in flight: each has made its call
  \<^verbatim>\<open>registerOperation("save-tokens", ...)\<close>, the second a millisecond after the first.
\<close>

definition first_save_registered :: system where
  "first_save_registered = snd (registerOperation ''save-tokens'' [] example_manager)"

definition second_save_registered :: system where
  "second_save_registered =
     snd (registerOperation ''save-tokens'' []
            (first_save_registered\<lparr>clock := clock first_save_registered + 1\<rparr>))"

text \<open>
  The way \<^verbatim>\<open>stop()\<close> of the login flow drives the manager: tokens are saved, the
  manager is shut down, and the timer of \<^verbatim>\<open>stop()\<close>, which nothing clears, calls
  \<^verbatim>\<open>emergencyShutdown\<close> afterwards.
\<close>

definition saved_then_shut_down :: system where
  "saved_then_shut_down =
     snd (markAsShuttingDown
            (snd (saveTokens [(''access_token'', JStr ''A1''), (''refresh_token'', JStr ''R1'')]
                    example_manager)))"

text \<open>New tokens without an access token, well-formed for the type \<^verbatim>\<open>Credentials\<close>.\<close>

definition tokens_without_access_token :: props where
  "tokens_without_access_token = [(''scope'', JStr ''calendar''), (''token_type'', JStr ''Bearer'')]"

text \<open>A token file whose record has no access token, and one that cannot be read.\<close>

definition manager_with_tokenless_file :: system where
  "manager_with_tokenless_file =
     example_manager
       \<lparr>files := [''/cfg/tokens.json'' \<mapsto> Json (JObj [(''refresh_token'', JStr ''R1'')])]\<rparr>"

definition manager_with_unreadable_file :: system where
  "manager_with_unreadable_file = manager_with_saved_tokens\<lparr>faults := [None, None, Some EACCES]\<rparr>"

text \<open>A client that holds an access token without an expiry.\<close>

definition manager_without_expiry :: system where
  "manager_without_expiry = example_manager\<lparr>credentials := [(''access_token'', JStr ''A1'')]\<rparr>"

section \<open>Properties\<close>

subsection \<open>Auxiliary facts\<close>

lemma fold_update_distinct:
  "distinct (map fst src) \<Longrightarrow>
     map_of (fold (\<lambda>(k, v). AList.update k v) src tgt) = map_of tgt ++ map_of src"
proof (induction src arbitrary: tgt)
  case Nil
  then show ?case by simp
next
  case (Cons p src)
  obtain k v where p: "p = (k, v)" by (cases p)
  from Cons.prems have nk: "k \<notin> fst ` set src" and d: "distinct (map fst src)"
    by (auto simp: p)
  have "map_of src k = None" using nk by (simp add: map_of_eq_None_iff)
  then show ?case using Cons.IH [OF d, of "AList.update k v tgt"]
    by (auto simp: p update_conv' fun_eq_iff map_add_def split: option.splits)
qed

lemma map_of_spread: "map_of (spread tgt src) = map_of tgt ++ map_of src"
  unfolding spread_def
  by (simp add: fold_update_distinct distinct_clearjunk map_of_clearjunk)

lemma map_of_set_prop: "map_of (set_prop name v obj) = (map_of obj)(name := v)"
  by (cases v) (simp_all add: set_prop_def delete_conv' update_conv')

lemma fs_call_nofault: "faults s = [] \<Longrightarrow> fs_call body s = body s"
  by (simp add: fs_call_def take_fault_def)

lemma acquire_free:
  "filePath \<notin> locks s \<Longrightarrow>
     acquire filePath 5000 s = (Inr True, s\<lparr>locks := insert filePath (locks s)\<rparr>)"
  by (simp add: acquire_def acquire_from.simps [of filePath 5000 "clock s" s])

lemma withRetry_unfold:
  "withRetry operation 3 d s =
     (case operation s of
        (Inr x, s') \<Rightarrow> (Inr x, s')
      | (Inl e, s') \<Rightarrow> withRetry_from operation 3 d 1 e (s'\<lparr>clock := clock s' + d\<rparr>))"
  by (simp add: withRetry_def withRetry_from.simps [of operation 3 d 0]
      split: prod.splits sum.splits)

lemmas frame_simps = enter_def leave_def system.defs frame.defs

lemmas action_defs = succeed_def throw_def lift_def andThen_def tryCatch_def tryFinally_def
  perform_def succeeds_def ignoring_def tryOrReturn_def whenRunning_def

lemmas fs_defs = fs_access_def fs_readFile_def fs_writeFile_def fs_unlink_def fs_rename_def
  fs_mkdir_for_def

lemmas example_defs = example_manager_def TokenManager_constructor_def
  manager_with_saved_tokens_def manager_with_garbage_def manager_with_expiry_def
  manager_expired_no_refresh_def manager_with_tokenless_file_def
  manager_with_unreadable_file_def manager_without_expiry_def

lemma tracked_running:
  assumes "operation s = (outcome, s1)" and "shutdownPhase s1 = RUNNING"
  shows "tracked opId operation s =
           (outcome, s1\<lparr>pendingOperations := AList.delete opId (pendingOperations s1)\<rparr>)"
  using assms by (simp add: tracked_def registerOperation_def settle_def delete_update_same)

subsection \<open>Refresh-token stickiness\<close>

text \<open>
  Claim C2. Let the token file hold a record with the refresh token \<open>R1\<close>, and let
  \<^verbatim>\<open>refreshTokensInternal\<close> be called with new tokens that carry the access token \<open>A2\<close>
  and no refresh token (none, or one that is \<^verbatim>\<open>null\<close> or empty), on a running manager
  whose lock is free and whose file system answers every call without a fault. Then the call returns, and the token file holds
  a record whose access token is \<open>A2\<close> and whose refresh token is still \<open>R1\<close>.
\<close>

theorem refresh_token_sticky:
  assumes "shutdownPhase s = RUNNING" and "tokenPath s \<notin> locks s" and "faults s = []"
    and "files s (tokenPath s) = Some (Json (JObj current))"
    and "map_of current ''refresh_token'' = Some R1"
    and "map_of newTokens ''access_token'' = Some A2"
    and "\<not> truthy (map_of newTokens ''refresh_token'')"
  shows "\<exists>saved.
           fst (refreshTokensInternal newTokens s) = Inr () \<and>
           files (snd (refreshTokensInternal newTokens s)) (tokenPath s) = Some (Json (JObj saved)) \<and>
           map_of saved ''access_token'' = Some A2 \<and>
           map_of saved ''refresh_token'' = Some R1"
  using assms
  by (simp add: refreshTokensInternal_def Let_def createTempFile_def take_random_def
      withLock_def acquire_free refreshTokens_locked_def merge_existing_def
      ensureTokenDirectoryExists_def verify_refreshed_def rename_or_copy_def
      withRetry_unfold release_and_forget_def releaseTemporaryFile_def release_def
      JSON_parse_def JSON_stringify_def
      action_defs fs_defs fs_call_nofault frame_simps map_of_spread map_of_set_prop
      split: list.splits)

theorem refresh_token_sticky_witness:
  "shutdownPhase manager_with_saved_tokens = RUNNING \<and>
   tokenPath manager_with_saved_tokens \<notin> locks manager_with_saved_tokens \<and>
   faults manager_with_saved_tokens = [] \<and>
   files manager_with_saved_tokens (tokenPath manager_with_saved_tokens) =
     Some (Json (JObj [(''access_token'', JStr ''A1''), (''refresh_token'', JStr ''R1'')])) \<and>
   \<not> truthy (map_of [(''access_token'', JStr ''A2'')] ''refresh_token'') \<and>
   (\<exists>saved.
      fst (refreshTokensInternal [(''access_token'', JStr ''A2'')] manager_with_saved_tokens) = Inr () \<and>
      files (snd (refreshTokensInternal [(''access_token'', JStr ''A2'')] manager_with_saved_tokens))
        (tokenPath manager_with_saved_tokens) = Some (Json (JObj saved)) \<and>
      map_of saved ''access_token'' = Some (JStr ''A2'') \<and>
      map_of saved ''refresh_token'' = Some (JStr ''R1''))"
  using refresh_token_sticky [of manager_with_saved_tokens
      "[(''access_token'', JStr ''A1''), (''refresh_token'', JStr ''R1'')]" "JStr ''R1''"
      "[(''access_token'', JStr ''A2'')]" "JStr ''A2''"]
  by (simp add: example_defs)

subsection \<open>Shutdown\<close>

lemmas save_defs = saveTokens_def saveTokensInternal_def saveTokens_locked_def Let_def
  createTempFile_def take_random_def withLock_def acquire_free ensureTokenDirectoryExists_def
  rename_or_copy_def invalid_token_format_def withRetry_unfold release_and_forget_def
  releaseTemporaryFile_def release_def JSON_parse_def JSON_stringify_def setCredentials_def
  cleanup_after_error_def action_defs fs_defs fs_call_nofault frame_simps

lemmas refresh_defs = refreshTokensInternal_def Let_def createTempFile_def take_random_def
  withLock_def acquire_free refreshTokens_locked_def merge_existing_def
  ensureTokenDirectoryExists_def verify_refreshed_def rename_or_copy_def withRetry_unfold
  release_and_forget_def releaseTemporaryFile_def release_def JSON_parse_def JSON_stringify_def
  cleanup_after_error_def action_defs fs_defs fs_call_nofault frame_simps map_of_spread
  map_of_set_prop

lemmas shutdown_defs = markAsShuttingDown_def waitForPendingOperations_def
  cleanupAllTemporaryFiles_def removeTokenListener_def emergencyShutdown_def syncSaveTokens_def
  fs_existsSync_dir_def tracked_def registerOperation_def settle_def

text \<open>
  What does hold of the phase: neither of the lists that a shutdown walks through
  throws or touches the phase, so \<^verbatim>\<open>markAsShuttingDown\<close> returns and takes a running
  manager to \<^verbatim>\<open>complete\<close> and leaves every other phase as it is, and
  \<^verbatim>\<open>emergencyShutdown\<close> ends in \<^verbatim>\<open>complete\<close>.
\<close>

lemma cleanup_one_quiet:
  "\<exists>s'. cleanup_one p s = (Inr (), s') \<and> shutdownPhase s' = shutdownPhase s"
  by (auto simp: cleanup_one_def action_defs fs_defs fs_call_def take_fault_def
      releaseTemporaryFile_def
      split: list.splits option.splits prod.splits sum.splits)

lemma cleanup_each_quiet:
  "\<exists>s'. cleanup_each ps s = (Inr (), s') \<and> shutdownPhase s' = shutdownPhase s"
proof (induction ps arbitrary: s)
  case Nil
  then show ?case by (simp add: succeed_def)
next
  case (Cons p ps)
  obtain s1 where one: "cleanup_one p s = (Inr (), s1)" "shutdownPhase s1 = shutdownPhase s"
    using cleanup_one_quiet by blast
  obtain s2 where rest: "cleanup_each ps s1 = (Inr (), s2)" "shutdownPhase s2 = shutdownPhase s1"
    using Cons.IH by blast
  show ?case using one rest by (simp add: andThen_def)
qed

lemma release_resources_quiet:
  "\<exists>s'. release_resources rs s = (Inr (), s') \<and> shutdownPhase s' = shutdownPhase s"
proof (induction rs arbitrary: s)
  case Nil
  then show ?case by (simp add: succeed_def)
next
  case (Cons r rs)
  have "\<exists>s1. (if isTemporaryFile r s
               then andThen (perform (releaseTemporaryFile r)) (\<lambda>_. ignoring (fs_unlink r)) s
               else (Inr (), s)) = (Inr (), s1) \<and> shutdownPhase s1 = shutdownPhase s"
    by (auto simp: action_defs fs_defs fs_call_def take_fault_def releaseTemporaryFile_def
        split: list.splits option.splits prod.splits sum.splits)
  then obtain s1 where one:
    "(if isTemporaryFile r s
      then andThen (perform (releaseTemporaryFile r)) (\<lambda>_. ignoring (fs_unlink r)) s
      else (Inr (), s)) = (Inr (), s1)"
    "shutdownPhase s1 = shutdownPhase s"
    by blast
  obtain s2 where rest: "release_resources rs s1 = (Inr (), s2)"
    "shutdownPhase s2 = shutdownPhase s1"
    using Cons.IH by blast
  show ?case using one rest by (simp add: andThen_def)
qed

lemma release_operations_quiet:
  "\<exists>s'. release_operations ps s = (Inr (), s') \<and> shutdownPhase s' = shutdownPhase s"
proof (induction ps arbitrary: s)
  case Nil
  then show ?case by (simp add: succeed_def)
next
  case (Cons p ps)
  obtain s1 where one: "release_resources (resources p) s = (Inr (), s1)"
    "shutdownPhase s1 = shutdownPhase s"
    using release_resources_quiet by blast
  obtain s2 where rest: "release_operations ps s1 = (Inr (), s2)"
    "shutdownPhase s2 = shutdownPhase s1"
    using Cons.IH by blast
  show ?case using one rest by (simp add: andThen_def)
qed

lemma waitForPendingOperations_quiet:
  "\<exists>s'. waitForPendingOperations t s = (Inr (), s') \<and> shutdownPhase s' = shutdownPhase s"
  using release_operations_quiet [of "map snd (pendingOperations s)" "s\<lparr>clock := clock s + t\<rparr>"]
  by (auto simp: waitForPendingOperations_def Let_def)

lemma markAsShuttingDown_completes:
  "fst (markAsShuttingDown s) = Inr () \<and>
   shutdownPhase (snd (markAsShuttingDown s)) =
     (if shutdownPhase s = RUNNING then COMPLETE else shutdownPhase s)"
proof (cases "shutdownPhase s = RUNNING")
  case False
  then show ?thesis by (simp add: markAsShuttingDown_def)
next
  case True
  let ?s0 = "removeTokenListener (s\<lparr>shutdownPhase := PREPARING\<rparr>)"
  obtain s1 where w: "waitForPendingOperations 3000 ?s0 = (Inr (), s1)"
    using waitForPendingOperations_quiet by blast
  obtain s2 where c: "cleanupAllTemporaryFiles (s1\<lparr>shutdownPhase := FINALIZING\<rparr>) = (Inr (), s2)"
    using cleanup_each_quiet unfolding cleanupAllTemporaryFiles_def by blast
  show ?thesis using True w c
    by (simp add: markAsShuttingDown_def andThen_def perform_def)
qed

lemma emergencyShutdown_completes: "shutdownPhase (emergencyShutdown s) = COMPLETE"
  by (simp add: emergencyShutdown_def Let_def)

text \<open>
  Claim C3, at the input where the code departs from it. Tokens are saved, the manager
  is shut down with \<^verbatim>\<open>markAsShuttingDown\<close>, which leaves the phase \<^verbatim>\<open>complete\<close>, and
  \<^verbatim>\<open>emergencyShutdown\<close> is called. The call is not a no-op: it puts the phase back to
  \<^verbatim>\<open>finalizing\<close>, so the test of \<^verbatim>\<open>syncSaveTokens\<close> for the phase \<^verbatim>\<open>complete\<close> does
  not hold, and the token file is written once more.
\<close>

theorem emergencyShutdown_writes_after_complete:
  "shutdownPhase saved_then_shut_down = COMPLETE \<and>
   events (emergencyShutdown saved_then_shut_down) =
     events saved_then_shut_down @
       [WriteFile ''/cfg/tokens.json''
          (Json (JObj [(''access_token'', JStr ''A1''), (''refresh_token'', JStr ''R1'')]))]"
  by (simp add: saved_then_shut_down_def example_defs save_defs shutdown_defs)

theorem emergencyShutdown_writes_after_complete_witness:
  "emergencyShutdown saved_then_shut_down \<noteq> saved_then_shut_down"
proof
  assume "emergencyShutdown saved_then_shut_down = saved_then_shut_down"
  then have "events (emergencyShutdown saved_then_shut_down) = events saved_then_shut_down"
    by simp
  with emergencyShutdown_writes_after_complete show False by simp
qed

text \<open>
  Claim C5. In every state whose phase is not \<^verbatim>\<open>running\<close>, \<^verbatim>\<open>saveTokens\<close> is rejected
  with the error of \<^verbatim>\<open>registerOperation\<close> for a shutdown, and the state after the call
  is the state before it: no file is written, no call of the file system is made.
  The state that \<^verbatim>\<open>markAsShuttingDown\<close> leaves, whatever state it is called in, is
  such a state.
\<close>

theorem saveTokens_rejected_during_shutdown:
  "(shutdownPhase s \<noteq> RUNNING \<longrightarrow>
      saveTokens tokens s =
        (Inl (Error (''Cannot start new operations during shutdown phase: ''
                      @ phase_name (shutdownPhase s))), s)) \<and>
   shutdownPhase (snd (markAsShuttingDown s)) \<noteq> RUNNING \<and>
   saveTokens tokens (snd (markAsShuttingDown s)) =
     (Inl (Error (''Cannot start new operations during shutdown phase: ''
                   @ phase_name (shutdownPhase (snd (markAsShuttingDown s))))),
      snd (markAsShuttingDown s))"
proof -
  have rejected: "saveTokens tokens s' =
      (Inl (Error (''Cannot start new operations during shutdown phase: ''
                    @ phase_name (shutdownPhase s'))), s')"
    if "shutdownPhase s' \<noteq> RUNNING" for s'
    using that
    by (simp add: saveTokens_def tracked_def saveTokensInternal_def registerOperation_def)
  have "shutdownPhase (snd (markAsShuttingDown s)) \<noteq> RUNNING"
    using markAsShuttingDown_completes [of s] by simp
  with rejected show ?thesis by blast
qed

theorem saveTokens_rejected_during_shutdown_witness:
  "shutdownPhase (snd (markAsShuttingDown example_manager)) \<noteq> RUNNING \<and>
   saveTokens [(''access_token'', JStr ''A1'')] (snd (markAsShuttingDown example_manager)) =
     (Inl (Error ''Cannot start new operations during shutdown phase: complete''),
      snd (markAsShuttingDown example_manager))"
proof -
  have phase: "shutdownPhase (snd (markAsShuttingDown example_manager)) = COMPLETE"
    by (simp add: example_defs shutdown_defs action_defs)
  with saveTokens_rejected_during_shutdown [of "snd (markAsShuttingDown example_manager)"
      "[(''access_token'', JStr ''A1'')]"]
  show ?thesis by simp
qed

subsection \<open>Verification after the write\<close>

text \<open>
  The sequence of a save and of a refresh when nothing fails: the directory is made,
  the record is written to the temporary file, and the temporary file is renamed onto
  the token path; the token file is touched by the rename alone.
\<close>

lemma save_sequence:
  assumes "shutdownPhase s = RUNNING" and "tokenPath s \<notin> locks s" and "faults s = []"
    and "truthy (map_of tokens ''access_token'')"
  shows "fst (saveTokensInternal tokens s) = Inr () \<and>
         events (snd (saveTokensInternal tokens s)) =
           events s @ [Mkdir (tokenPath s),
                       WriteFile (temp_path_of s) (Json (JObj tokens)),
                       Rename (temp_path_of s) (tokenPath s)] \<and>
         files (snd (saveTokensInternal tokens s)) (tokenPath s) = Some (Json (JObj tokens)) \<and>
         files (snd (saveTokensInternal tokens s)) (temp_path_of s) = None \<and>
         credentials (snd (saveTokensInternal tokens s)) = tokens \<and>
         locks (snd (saveTokensInternal tokens s)) = locks s \<and>
         map_of (tempFiles (snd (saveTokensInternal tokens s))) (temp_path_of s) = None"
  using assms
  by (simp add: save_defs temp_path_of_def delete_conv' split: list.splits)

lemma refresh_sequence:
  assumes "shutdownPhase s = RUNNING" and "tokenPath s \<notin> locks s" and "faults s = []"
    and "files s (tokenPath s) = None"
  shows "fst (refreshTokensInternal newTokens s) = Inr () \<and>
         events (snd (refreshTokensInternal newTokens s)) =
           events s @ [Mkdir (tokenPath s),
                       WriteFile (temp_path_of s) (Json (JObj (spread [] newTokens))),
                       Rename (temp_path_of s) (tokenPath s)] \<and>
         files (snd (refreshTokensInternal newTokens s)) (tokenPath s) =
           Some (Json (JObj (spread [] newTokens)))"
  using assms
  by (simp add: refresh_defs temp_path_of_def delete_conv' split: list.splits)

text \<open>
  Claim C4, at the input where the code departs from it. New tokens without an access
  token arrive while there is no token file. \<^verbatim>\<open>refreshTokensInternal\<close> returns, and
  the token file holds the record without an access token: its verification tests
  only that the text parses to an object. \<^verbatim>\<open>saveTokensInternal\<close>, given the same
  tokens in the same state, throws and leaves no token file.
\<close>

theorem refresh_persists_record_without_access_token:
  "fst (refreshTokensInternal tokens_without_access_token example_manager) = Inr () \<and>
   files (snd (refreshTokensInternal tokens_without_access_token example_manager))
     ''/cfg/tokens.json'' = Some (Json (JObj tokens_without_access_token)) \<and>
   invalid_token_format (JObj tokens_without_access_token) \<and>
   fst (saveTokensInternal tokens_without_access_token example_manager) =
     Inl (Error ''Token verification failed, invalid token format'') \<and>
   files (snd (saveTokensInternal tokens_without_access_token example_manager))
     ''/cfg/tokens.json'' = None"
  by (simp add: tokens_without_access_token_def example_defs refresh_defs save_defs
      spread_def set_prop_def clearjunk.simps)

theorem refresh_persists_record_without_access_token_witness:
  "fst (refreshTokensInternal tokens_without_access_token example_manager) \<noteq>
   fst (saveTokensInternal tokens_without_access_token example_manager)"
  using refresh_persists_record_without_access_token by simp

subsection \<open>Expiry\<close>




subsection \<open>Loading\<close>

lemmas load_defs = loadSavedTokensInternal_def ensureTokenDirectoryExists_def JSON_parse_def
  setCredentials_def action_defs fs_defs fs_call_def take_fault_def

lemma load_never_throws: "\<exists>b s'. loadSavedTokensInternal s = (Inr b, s')"
  by (auto simp: load_defs
      split: list.splits option.splits sum.splits prod.splits error.splits errno.splits
        contents.splits if_splits)

lemma load_true_only:
  "fst (loadSavedTokensInternal s) = Inr True \<Longrightarrow>
     \<exists>v. files s (tokenPath s) = Some (Json v) \<and> \<not> invalid_token_format v"
  by (auto simp: load_defs
      split: list.splits option.splits sum.splits prod.splits error.splits errno.splits
        contents.splits if_splits)

lemma load_false_unless_valid:
  assumes "\<not> (\<exists>v. files s (tokenPath s) = Some (Json v) \<and> \<not> invalid_token_format v)"
  shows "fst (loadSavedTokensInternal s) = Inr False"
proof -
  obtain b s' where r: "loadSavedTokensInternal s = (Inr b, s')"
    using load_never_throws by blast
  have "\<not> b" using load_true_only [of s] assms r by auto
  with r show ?thesis by simp
qed

lemma load_unreadable:
  assumes "files s (tokenPath s) = Some c" and "faults s = None # None # Some code # rest"
  shows "fst (loadSavedTokensInternal s) = Inr False \<and>
         files (snd (loadSavedTokensInternal s)) = files s"
  using assms
  by (auto simp: load_defs
      split: list.splits option.splits sum.splits prod.splits error.splits errno.splits
        contents.splits if_splits)

lemma load_heals:
  assumes "faults s = []" and "files s (tokenPath s) = Some c"
    and "case c of NotJson t \<Rightarrow> True | Json v \<Rightarrow> invalid_token_format v"
  shows "files (snd (loadSavedTokensInternal s)) (tokenPath s) = None"
  using assms
  by (auto simp: load_defs
      split: list.splits option.splits sum.splits prod.splits error.splits errno.splits
        contents.splits if_splits)

lemma load_keeps_phase:
  "shutdownPhase (snd (loadSavedTokensInternal s)) = shutdownPhase s"
  by (auto simp: load_defs
      split: list.splits option.splits sum.splits prod.splits error.splits errno.splits
        contents.splits if_splits)

lemma loadSavedTokens_running:
  assumes "shutdownPhase s = RUNNING"
  shows "fst (loadSavedTokens s) = fst (loadSavedTokensInternal s)"
  using assms load_keeps_phase [of s]
    tracked_running [of loadSavedTokensInternal s "fst (loadSavedTokensInternal s)"
      "snd (loadSavedTokensInternal s)" "''load-tokens''"]
  by (simp add: loadSavedTokens_def)

lemma missing_access_token_invalid:
  "map_of ps ''access_token'' = None \<Longrightarrow> invalid_token_format (JObj ps)"
  by (simp add: invalid_token_format_def)

text \<open>
  Claim C7. Whatever the files and whatever the file system does to the calls,
  \<^verbatim>\<open>loadSavedTokensInternal\<close> returns and does not throw. It returns false when there
  is no token file, when the file is not JSON, when its value fails the test of the
  format, in particular when it is a record without an access token, and when the
  file is there and reading it fails. When the file system answers without a fault
  and the file is not JSON or fails the test of the format, the token file is gone
  after the call. On a running manager \<^verbatim>\<open>loadSavedTokens\<close> returns what the internal
  method returns.
\<close>

theorem load_total_and_self_healing:
  "(\<exists>b s'. loadSavedTokensInternal s = (Inr b, s')) \<and>
   (shutdownPhase s = RUNNING \<longrightarrow> fst (loadSavedTokens s) = fst (loadSavedTokensInternal s)) \<and>
   (files s (tokenPath s) = None \<longrightarrow> fst (loadSavedTokensInternal s) = Inr False) \<and>
   (files s (tokenPath s) = Some (NotJson t) \<longrightarrow> fst (loadSavedTokensInternal s) = Inr False) \<and>
   (files s (tokenPath s) = Some (Json v) \<and> invalid_token_format v \<longrightarrow>
      fst (loadSavedTokensInternal s) = Inr False) \<and>
   (files s (tokenPath s) = Some (Json (JObj ps)) \<and> map_of ps ''access_token'' = None \<longrightarrow>
      fst (loadSavedTokensInternal s) = Inr False) \<and>
   (files s (tokenPath s) = Some c \<and> faults s = None # None # Some code # rest \<longrightarrow>
      fst (loadSavedTokensInternal s) = Inr False \<and>
      files (snd (loadSavedTokensInternal s)) = files s) \<and>
   (faults s = [] \<and> files s (tokenPath s) = Some c \<and>
    (case c of NotJson t \<Rightarrow> True | Json v \<Rightarrow> invalid_token_format v) \<longrightarrow>
      files (snd (loadSavedTokensInternal s)) (tokenPath s) = None)"
proof -
  have "files s (tokenPath s) = Some (Json (JObj ps)) \<and> map_of ps ''access_token'' = None \<longrightarrow>
      fst (loadSavedTokensInternal s) = Inr False"
    using load_false_unless_valid [of s] missing_access_token_invalid [of ps] by auto
  then show ?thesis
    using load_never_throws [of s] load_false_unless_valid [of s]
      load_unreadable [of s c code rest] load_heals [of s c] loadSavedTokens_running [of s]
    by auto
qed

theorem load_total_and_self_healing_witness:
  "files example_manager (tokenPath example_manager) = None \<and>
   fst (loadSavedTokensInternal example_manager) = Inr False \<and>
   shutdownPhase manager_with_garbage = RUNNING \<and>
   fst (loadSavedTokens manager_with_garbage) = Inr False \<and>
   faults manager_with_garbage = [] \<and>
   files manager_with_garbage (tokenPath manager_with_garbage) = Some (NotJson ''{access_tok'') \<and>
   fst (loadSavedTokensInternal manager_with_garbage) = Inr False \<and>
   files (snd (loadSavedTokensInternal manager_with_garbage)) (tokenPath manager_with_garbage) = None \<and>
   files manager_with_tokenless_file (tokenPath manager_with_tokenless_file) =
     Some (Json (JObj [(''refresh_token'', JStr ''R1'')])) \<and>
   invalid_token_format (JObj [(''refresh_token'', JStr ''R1'')]) \<and>
   fst (loadSavedTokensInternal manager_with_tokenless_file) = Inr False \<and>
   files (snd (loadSavedTokensInternal manager_with_tokenless_file))
     (tokenPath manager_with_tokenless_file) = None \<and>
   faults manager_with_unreadable_file = [None, None, Some EACCES] \<and>
   fst (loadSavedTokensInternal manager_with_unreadable_file) = Inr False \<and>
   files (snd (loadSavedTokensInternal manager_with_unreadable_file)) =
     files manager_with_unreadable_file"
  using load_total_and_self_healing [of example_manager]
    load_total_and_self_healing [of manager_with_garbage "''{access_tok''" _ _
      "NotJson ''{access_tok''"]
    load_total_and_self_healing [of manager_with_tokenless_file _
      "JObj [(''refresh_token'', JStr ''R1'')]" "[(''refresh_token'', JStr ''R1'')]"
      "Json (JObj [(''refresh_token'', JStr ''R1'')])"]
    load_total_and_self_healing [of manager_with_unreadable_file _ _ _
      "Json (JObj [(''access_token'', JStr ''A1''), (''refresh_token'', JStr ''R1'')])"
      EACCES "[]"]
  by (simp add: example_defs invalid_token_format_def)

subsection \<open>Refreshing\<close>

text \<open>
  Claim C8. When the credential is expired and has a refresh token, so that the
  exchange with the provider takes place, and the exchange fails with any error
  \<open>err\<close>, be it the GaxiosError with \<^verbatim>\<open>invalid_grant\<close> or another,
  \<^verbatim>\<open>refreshTokensIfNeededInternal\<close> returns false and does not throw, and so does
  \<^verbatim>\<open>refreshTokensIfNeeded\<close> on a running manager. Whatever the exchange answers, the
  internal method does not throw.
\<close>

theorem refresh_failure_resolves_false:
  assumes "isExpired s" and "truthy (map_of (credentials s) ''refresh_token'')"
  shows "refreshTokensIfNeededInternal (Inl err) s =
           (Inr False, s\<lparr>events := events s @ [RefreshAccessToken]\<rparr>) \<and>
         (shutdownPhase s = RUNNING \<longrightarrow> fst (refreshTokensIfNeeded (Inl err) s) = Inr False) \<and>
         (\<exists>b s'. refreshTokensIfNeededInternal exchange s = (Inr b, s'))"
proof -
  have internal: "refreshTokensIfNeededInternal (Inl err) s =
      (Inr False, s\<lparr>events := events s @ [RefreshAccessToken]\<rparr>)"
    using assms
    by (simp add: refreshTokensIfNeededInternal_def refreshAccessToken_def action_defs)
  have "fst (refreshTokensIfNeeded (Inl err) s) = Inr False" if "shutdownPhase s = RUNNING"
    using that
      tracked_running [of "refreshTokensIfNeededInternal (Inl err)" s _ _ "''refresh-tokens''",
        OF internal]
    by (simp add: refreshTokensIfNeeded_def)
  moreover have "\<exists>b s'. refreshTokensIfNeededInternal exchange s = (Inr b, s')"
    by (cases exchange)
      (auto simp: refreshTokensIfNeededInternal_def refreshAccessToken_def setCredentials_def
        action_defs)
  ultimately show ?thesis using internal by simp
qed

theorem refresh_failure_resolves_false_witness:
  "isExpired (manager_with_expiry 1700000240000) \<and>
   truthy (map_of (credentials (manager_with_expiry 1700000240000)) ''refresh_token'') \<and>
   shutdownPhase (manager_with_expiry 1700000240000) = RUNNING \<and>
   fst (refreshTokensIfNeededInternal (Inl (GaxiosError (Some ''invalid_grant'')))
          (manager_with_expiry 1700000240000)) = Inr False \<and>
   fst (refreshTokensIfNeeded (Inl (GaxiosError (Some ''invalid_grant'')))
          (manager_with_expiry 1700000240000)) = Inr False"
proof -
  have expired: "isExpired (manager_with_expiry 1700000240000)"
    by (simp add: example_defs isExpired_def)
  have token: "truthy (map_of (credentials (manager_with_expiry 1700000240000)) ''refresh_token'')"
    by (simp add: example_defs)
  have "shutdownPhase (manager_with_expiry 1700000240000) = RUNNING"
    by (simp add: example_defs)
  with expired token
    refresh_failure_resolves_false [OF expired token,
      of "GaxiosError (Some ''invalid_grant'')" "Inl (GaxiosError (Some ''invalid_grant''))"]
  show ?thesis by simp
qed

text \<open>
  Claim C10. A client that holds an access token, an expiry that has passed and no
  refresh token (none, or one that is \<^verbatim>\<open>null\<close> or empty): the credential is expired
  (unless the expiry is the number 0, which counts as none), and
  \<^verbatim>\<open>refreshTokensIfNeededInternal\<close> returns true and changes nothing; on a running
  manager \<^verbatim>\<open>refreshTokensIfNeeded\<close> returns true, makes no call to the outside and
  leaves the credentials as they are.
\<close>

theorem expired_without_refresh_token_reported_valid:
  assumes "truthy (map_of (credentials s) ''access_token'')"
    and "map_of (credentials s) ''expiry_date'' = Some (JNum e)" and "e < int (clock s)"
    and "\<not> truthy (map_of (credentials s) ''refresh_token'')"
  shows "(e \<noteq> 0 \<longrightarrow> isExpired s) \<and>
         refreshTokensIfNeededInternal exchange s = (Inr True, s) \<and>
         (shutdownPhase s = RUNNING \<longrightarrow>
            fst (refreshTokensIfNeeded exchange s) = Inr True \<and>
            events (snd (refreshTokensIfNeeded exchange s)) = events s \<and>
            credentials (snd (refreshTokensIfNeeded exchange s)) = credentials s)"
proof -
  have internal: "refreshTokensIfNeededInternal exchange s = (Inr True, s)"
    using assms by (simp add: refreshTokensIfNeededInternal_def)
  have "isExpired s" if "e \<noteq> 0"
    using that assms by (simp add: isExpired_def)
  moreover have "fst (refreshTokensIfNeeded exchange s) = Inr True \<and>
      events (snd (refreshTokensIfNeeded exchange s)) = events s \<and>
      credentials (snd (refreshTokensIfNeeded exchange s)) = credentials s"
    if "shutdownPhase s = RUNNING"
    using that
      tracked_running [of "refreshTokensIfNeededInternal exchange" s _ _ "''refresh-tokens''",
        OF internal]
    by (simp add: refreshTokensIfNeeded_def)
  ultimately show ?thesis using internal by simp
qed

theorem expired_without_refresh_token_reported_valid_witness:
  "truthy (map_of (credentials manager_expired_no_refresh) ''access_token'') \<and>
   map_of (credentials manager_expired_no_refresh) ''expiry_date'' = Some (JNum 1699999999000) \<and>
   1699999999000 < int (clock manager_expired_no_refresh) \<and>
   \<not> truthy (map_of (credentials manager_expired_no_refresh) ''refresh_token'') \<and>
   shutdownPhase manager_expired_no_refresh = RUNNING \<and>
   isExpired manager_expired_no_refresh \<and>
   fst (refreshTokensIfNeeded (Inl (GaxiosError None)) manager_expired_no_refresh) = Inr True \<and>
   events (snd (refreshTokensIfNeeded (Inl (GaxiosError None)) manager_expired_no_refresh)) = []"
proof -
  have a: "truthy (map_of (credentials manager_expired_no_refresh) ''access_token'')"
    and e: "map_of (credentials manager_expired_no_refresh) ''expiry_date'' =
              Some (JNum 1699999999000)"
    and p: "1699999999000 < int (clock manager_expired_no_refresh)"
    and r: "\<not> truthy (map_of (credentials manager_expired_no_refresh) ''refresh_token'')"
    and running: "shutdownPhase manager_expired_no_refresh = RUNNING"
    and quiet: "events manager_expired_no_refresh = []"
    by (simp_all add: example_defs)
  from expired_without_refresh_token_reported_valid [OF a e p r, of "Inl (GaxiosError None)"]
    a e p r running quiet
  show ?thesis by simp
qed

subsection \<open>The registry\<close>

text \<open>
  Claim C9 as stated fails: the public operations register under the fixed names
  \<^verbatim>\<open>"load-tokens"\<close>, \<^verbatim>\<open>"refresh-tokens"\<close>, \<^verbatim>\<open>"validate-tokens"\<close>, \<^verbatim>\<open>"save-tokens"\<close> and
  \<^verbatim>\<open>"clear-tokens"\<close>, not under an id made for the invocation. With two invocations of
  \<^verbatim>\<open>saveTokens\<close> in flight the registry has one entry, not two, that of the second;
  and when the first one settles, its wrapper removes this entry.
\<close>

theorem two_saves_share_one_entry:
  "\<not> length (pendingOperations second_save_registered) = 2 \<and>
   map fst (pendingOperations second_save_registered) = [''save-tokens''] \<and>
   map (startTime \<circ> snd) (pendingOperations second_save_registered) = [1700000000001] \<and>
   pendingOperations (snd (settle ''save-tokens'' (Inr ()) second_save_registered)) = []"
  by (simp add: second_save_registered_def first_save_registered_def example_defs
      registerOperation_def settle_def)

text \<open>
  Claim C9, amended. On a running manager \<^verbatim>\<open>registerOperation\<close> succeeds and puts the
  operation under the name it is given, in place of an entry that is there under this
  name, so that a second registration under a name adds no entry; outside the phase
  \<^verbatim>\<open>running\<close> it is rejected and changes nothing. The wrapper passes the result or
  the error of the operation on and removes the entry under the name, and no other.
  An operation run through the registry on a manager that is running when it settles
  gives its own result and leaves no entry under its name. The five public
  operations use the five fixed names.
\<close>

theorem registry_tracks_by_fixed_name:
  "(shutdownPhase s = RUNNING \<longrightarrow>
      fst (registerOperation opId res s) = Inr () \<and>
      map_of (pendingOperations (snd (registerOperation opId res s))) =
        (map_of (pendingOperations s))
          (opId \<mapsto> \<lparr>op_id = opId, status = InProgress, resources = res, startTime = clock s\<rparr>) \<and>
      (opId \<in> fst ` set (pendingOperations s) \<longrightarrow>
         map fst (pendingOperations (snd (registerOperation opId res s))) =
           map fst (pendingOperations s))) \<and>
   (shutdownPhase s \<noteq> RUNNING \<longrightarrow>
      registerOperation opId res s =
        (Inl (Error (''Cannot start new operations during shutdown phase: ''
                      @ phase_name (shutdownPhase s))), s)) \<and>
   fst (settle opId outcome s) = outcome \<and>
   map_of (pendingOperations (snd (settle opId outcome s))) =
     (map_of (pendingOperations s))(opId := None) \<and>
   (shutdownPhase (snd (operation s)) = RUNNING \<longrightarrow>
      fst (tracked opId operation s) = fst (operation s) \<and>
      map_of (pendingOperations (snd (tracked opId operation s))) opId = None) \<and>
   loadSavedTokens = tracked ''load-tokens'' loadSavedTokensInternal \<and>
   refreshTokensIfNeeded exchange = tracked ''refresh-tokens'' (refreshTokensIfNeededInternal exchange) \<and>
   validateTokens exchange = tracked ''validate-tokens'' (validateTokensInternal exchange) \<and>
   saveTokens tokens = tracked ''save-tokens'' (saveTokensInternal tokens) \<and>
   clearTokens = tracked ''clear-tokens'' clearTokensInternal"
proof -
  have "fst (tracked opId operation s) = fst (operation s) \<and>
      map_of (pendingOperations (snd (tracked opId operation s))) opId = None"
    if "shutdownPhase (snd (operation s)) = RUNNING"
    using that tracked_running [of operation s "fst (operation s)" "snd (operation s)" opId]
    by (simp add: delete_conv')
  then show ?thesis
    by (simp add: registerOperation_def settle_def update_conv' delete_conv' update_keys
        loadSavedTokens_def refreshTokensIfNeeded_def validateTokens_def saveTokens_def
        clearTokens_def)
qed

theorem registry_tracks_by_fixed_name_witness:
  "shutdownPhase first_save_registered = RUNNING \<and>
   ''save-tokens'' \<in> fst ` set (pendingOperations first_save_registered) \<and>
   map fst (pendingOperations (snd (registerOperation ''save-tokens'' [] first_save_registered))) =
     [''save-tokens''] \<and>
   shutdownPhase (snd (markAsShuttingDown example_manager)) \<noteq> RUNNING \<and>
   fst (registerOperation ''save-tokens'' [] (snd (markAsShuttingDown example_manager))) =
     Inl (Error ''Cannot start new operations during shutdown phase: complete'') \<and>
   shutdownPhase (snd (clearTokensInternal example_manager)) = RUNNING \<and>
   fst (tracked ''clear-tokens'' clearTokensInternal example_manager) = Inr ()"
proof -
  have running: "shutdownPhase first_save_registered = RUNNING"
    and there: "''save-tokens'' \<in> fst ` set (pendingOperations first_save_registered)"
    and names: "map fst (pendingOperations first_save_registered) = [''save-tokens'']"
    by (simp_all add: first_save_registered_def example_defs registerOperation_def)
  have complete: "shutdownPhase (snd (markAsShuttingDown example_manager)) = COMPLETE"
    by (simp add: example_defs shutdown_defs action_defs)
  have cleared: "shutdownPhase (snd (clearTokensInternal example_manager)) = RUNNING"
    and returned: "fst (clearTokensInternal example_manager) = Inr ()"
    by (simp_all add: clearTokensInternal_def example_defs setCredentials_def action_defs fs_defs
        fs_call_nofault)
  have again: "map fst (pendingOperations
      (snd (registerOperation ''save-tokens'' [] first_save_registered))) = [''save-tokens'']"
    using running there names
      registry_tracks_by_fixed_name [of first_save_registered "''save-tokens''" "[]"
        "Inr ()" clearTokensInternal "Inl (GaxiosError None)" "[]"]
    by simp
  have rejected: "fst (registerOperation ''save-tokens'' []
      (snd (markAsShuttingDown example_manager))) =
      Inl (Error ''Cannot start new operations during shutdown phase: complete'')"
    using complete
      registry_tracks_by_fixed_name [of "snd (markAsShuttingDown example_manager)"
        "''save-tokens''" "[]" "Inr ()" clearTokensInternal "Inl (GaxiosError None)" "[]"]
    by simp
  have "fst (tracked ''clear-tokens'' clearTokensInternal example_manager) =
      fst (clearTokensInternal example_manager)"
    using cleared
      registry_tracks_by_fixed_name [of example_manager "''clear-tokens''" "[]"
        "Inr ()" clearTokensInternal "Inl (GaxiosError None)" "[]"]
    by blast
  with returned
  have passed: "fst (tracked ''clear-tokens'' clearTokensInternal example_manager) = Inr ()"
    by simp
  from running there again complete rejected cleared passed show ?thesis by simp
qed

end
